theory Spec2Isabelle
  imports Main "HOL-Library.Char_ord" "HOL-Library.List_Lexorder"
begin

section \<open>Line Awesome icon catalogue builder (build\_icons.py)\<close>

text \<open>
  A shallow embedding of \<^verbatim>\<open>src/build_icons.py\<close>. Python strings are modelled as
  \<^typ>\<open>string\<close>, a \<^typ>\<open>char\<close> standing for the code point of its number (0 to 255).
  Whitespace (\<^verbatim>\<open>str.split\<close>, \<^verbatim>\<open>str.strip\<close>) is Python's on these code points. The case
  conversions (\<^verbatim>\<open>str.capitalize\<close>, \<^verbatim>\<open>str.title\<close>) are the ASCII fragment of Python's: a
  character outside ASCII is left unchanged by them. Every table of the script is ASCII.
\<close>

subsection \<open>Python string primitives\<close>

text \<open>\<^verbatim>\<open>s.startswith(p)\<close> and \<^verbatim>\<open>s.endswith(p)\<close>.\<close>

fun startswith :: "string \<Rightarrow> string \<Rightarrow> bool" where
  "startswith s [] = True"
| "startswith [] (p # ps) = False"
| "startswith (c # cs) (p # ps) = (c = p \<and> startswith cs ps)"

definition endswith :: "string \<Rightarrow> string \<Rightarrow> bool" where
  "endswith s p = startswith (rev s) (rev p)"

text \<open>\<^verbatim>\<open>sub in s\<close> on strings: \<^verbatim>\<open>sub\<close> occurs in \<^verbatim>\<open>s\<close> as a contiguous substring.\<close>

fun is_substring :: "string \<Rightarrow> string \<Rightarrow> bool" where
  "is_substring sub [] = (sub = [])"
| "is_substring sub (c # cs) = (startswith (c # cs) sub \<or> is_substring sub cs)"

text \<open>\<^verbatim>\<open>s.split(d)\<close> for a one-character separator: never empty, keeps empty segments.\<close>

fun split_on :: "char \<Rightarrow> string \<Rightarrow> string list" where
  "split_on d [] = [[]]"
| "split_on d (c # cs) =
     (if c = d then [] # split_on d cs
      else (case split_on d cs of [] \<Rightarrow> [[c]] | w # ws \<Rightarrow> (c # w) # ws))"

text \<open>\<^verbatim>\<open>sep.join(ws)\<close>.\<close>

fun join :: "string \<Rightarrow> string list \<Rightarrow> string" where
  "join sep [] = []"
| "join sep [w] = w"
| "join sep (w # v # ws) = w @ sep @ join sep (v # ws)"

text \<open>\<^verbatim>\<open>s.replace(a, b)\<close> for one-character \<^verbatim>\<open>a\<close> and \<^verbatim>\<open>b\<close>.\<close>

definition replace_char :: "char \<Rightarrow> char \<Rightarrow> string \<Rightarrow> string" where
  "replace_char a b s = map (\<lambda>c. if c = a then b else c) s"

text \<open>
  \<^verbatim>\<open>c.isspace()\<close> on the code points 0 to 255: tab, line feed, vertical tab, form feed,
  carriage return, the four separators 28 to 31, the space, and outside ASCII the next-line
  control U+0085 (133) and the no-break space U+00A0 (160).
\<close>

definition isspace :: "char \<Rightarrow> bool" where
  "isspace c = (c \<in> set [char_of (9::nat), char_of (10::nat), char_of (11::nat),
      char_of (12::nat), char_of (13::nat), char_of (28::nat), char_of (29::nat),
      char_of (30::nat), char_of (31::nat), CHR '' '', char_of (133::nat),
      char_of (160::nat)])"

text \<open>
  \<^verbatim>\<open>s.split()\<close> with no argument: the maximal runs of non-whitespace characters, in
  order. \<^verbatim>\<open>cur\<close> holds the run being read, reversed.
\<close>

fun split_ws_from :: "string \<Rightarrow> string \<Rightarrow> string list" where
  "split_ws_from cur [] = (if cur = [] then [] else [rev cur])"
| "split_ws_from cur (c # cs) =
     (if isspace c then (if cur = [] then split_ws_from [] cs else rev cur # split_ws_from [] cs)
      else split_ws_from (c # cur) cs)"

definition split_ws :: "string \<Rightarrow> string list" where
  "split_ws s = split_ws_from [] s"

text \<open>\<^verbatim>\<open>s.strip()\<close>: leading and trailing whitespace removed.\<close>

definition strip :: "string \<Rightarrow> string" where
  "strip s = rev (dropWhile isspace (rev (dropWhile isspace s)))"

text \<open>Case conversion of one character (ASCII letters; any other character is unchanged).\<close>

definition ascii_lowercase :: string where
  "ascii_lowercase = ''abcdefghijklmnopqrstuvwxyz''"

definition ascii_uppercase :: string where
  "ascii_uppercase = ''ABCDEFGHIJKLMNOPQRSTUVWXYZ''"

definition upper_char :: "char \<Rightarrow> char" where
  "upper_char c = (case map_of (zip ascii_lowercase ascii_uppercase) c of Some u \<Rightarrow> u | None \<Rightarrow> c)"

definition lower_char :: "char \<Rightarrow> char" where
  "lower_char c = (case map_of (zip ascii_uppercase ascii_lowercase) c of Some l \<Rightarrow> l | None \<Rightarrow> c)"

definition is_cased :: "char \<Rightarrow> bool" where
  "is_cased c = (c \<in> set ascii_lowercase \<or> c \<in> set ascii_uppercase)"

text \<open>\<^verbatim>\<open>s.capitalize()\<close>: the first character upper-cased, every other one lower-cased.\<close>

fun capitalize :: "string \<Rightarrow> string" where
  "capitalize [] = []"
| "capitalize (c # cs) = upper_char c # map lower_char cs"

text \<open>
  \<^verbatim>\<open>s.title()\<close>: a cased character that follows an uncased one (or starts the string) is
  upper-cased, one that follows a cased character is lower-cased.
\<close>

fun title_from :: "bool \<Rightarrow> string \<Rightarrow> string" where
  "title_from prev_cased [] = []"
| "title_from prev_cased (c # cs) =
     (if prev_cased then lower_char c else upper_char c) # title_from (is_cased c) cs"

definition title :: "string \<Rightarrow> string" where
  "title s = title_from False s"

subsection \<open>Errors\<close>

text \<open>The only exception the modelled code can raise: a dictionary lookup that misses.\<close>

datatype error = KeyError string

subsection \<open>get\_css\_class\<close>

definition prefix_map :: "(string \<times> string) list" where
  "prefix_map = [(''solid'', ''las''), (''regular'', ''lar''), (''brand'', ''lab'')]"

definition get_css_class :: "string \<Rightarrow> string \<Rightarrow> error + string" where
  "get_css_class icon_name icon_type =
     (case map_of prefix_map icon_type of
        None \<Rightarrow> Inl (KeyError icon_type)
      | Some prefix \<Rightarrow> Inr (prefix @ '' la-'' @ icon_name))"

subsection \<open>categorize\_icon\<close>

text \<open>
  The membership tables of the dictionary \<^verbatim>\<open>categories\<close>, one list per key, in the order
  of the dictionary literal (the order in which \<^verbatim>\<open>categories.items()\<close> yields them).
\<close>

definition brand_icons :: "string list" where
  "brand_icons =
    [''500px'', ''accusoft'', ''adobe'', ''affiliatetheme'', ''airbnb'', ''algolia'',
     ''alipay'', ''amazon'', ''amazon-pay'', ''android'', ''angellist'', ''angrycreative'',
     ''angular'', ''app-store'', ''app-store-ios'', ''apper'', ''apple-pay'', ''artstation'',
     ''asymmetrik'', ''atlassian'', ''audible'', ''autoprefixer'', ''avianex'', ''aviato'',
     ''aws'', ''bandcamp'', ''battle-net'', ''behance'', ''behance-square'', ''bimobject'',
     ''bitbucket'', ''bitbucket-square'', ''bitcoin'', ''bity'', ''black-tie'', ''blackberry'',
     ''blogger'', ''blogger-b'', ''bootstrap'', ''btc'', ''buffer'', ''buromobelexperte'',
     ''buy-n-large'', ''buysellads'', ''centercode'', ''centos'', ''chrome'', ''chromecast'',
     ''cloudscale'', ''cloudsmith'', ''cloudversify'', ''codepen'', ''codiepie'',
     ''confluence'', ''connectdevelop'', ''contao'', ''cotton-bureau'', ''cpanel'',
     ''creative-commons'', ''critical-role'', ''css3'', ''css3-alt'', ''cuttlefish'',
     ''d-and-d'', ''d-and-d-beyond'', ''dashcube'', ''delicious'', ''deploydog'', ''deskpro'',
     ''dev'', ''deviantart'', ''digg'', ''digital-ocean'', ''discord'', ''discourse'',
     ''dochub'', ''docker'', ''draft2digital'', ''dribbble'', ''dribbble-square'', ''dropbox'',
     ''drupal'', ''dyalog'', ''earlybirds'', ''ebay'', ''edge'', ''elementor'', ''ello'',
     ''ember'', ''empire'', ''envira'', ''erlang'', ''ethereum'', ''etsy'', ''evernote'',
     ''expeditedssl'', ''facebook'', ''facebook-f'', ''facebook-messenger'',
     ''facebook-square'', ''fantasy-flight-games'', ''fedex'', ''fedora'', ''figma'',
     ''firefox'', ''first-order'', ''first-order-alt'', ''firstdraft'', ''flickr'',
     ''flipboard'', ''fly'', ''font-awesome'', ''font-awesome-alt'', ''font-awesome-flag'',
     ''fonticons'', ''fonticons-fi'', ''fort-awesome'', ''fort-awesome-alt'', ''forumbee'',
     ''foursquare'', ''free-code-camp'', ''freebsd'', ''fulcrum'', ''galactic-republic'',
     ''galactic-senate'', ''get-pocket'', ''gg'', ''gg-circle'', ''git'', ''git-alt'',
     ''git-square'', ''github'', ''github-alt'', ''github-square'', ''gitkraken'', ''gitlab'',
     ''gitter'', ''glide'', ''glide-g'', ''gofore'', ''goodreads'', ''goodreads-g'',
     ''google'', ''google-drive'', ''google-play'', ''google-plus'', ''google-plus-g'',
     ''google-plus-square'', ''google-wallet'', ''gratipay'', ''grav'', ''gripfire'',
     ''grunt'', ''gulp'', ''hacker-news'', ''hacker-news-square'', ''hackerrank'', ''hips'',
     ''hire-a-helper'', ''hooli'', ''hornbill'', ''hotjar'', ''houzz'', ''html5'', ''hubspot'',
     ''imdb'', ''instagram'', ''intercom'', ''internet-explorer'', ''invision'', ''ioxhost'',
     ''itch-io'', ''itunes'', ''java'', ''jenkins'', ''jira'', ''joget'', ''joomla'', ''js'',
     ''js-square'', ''jsfiddle'', ''kaggle'', ''keybase'', ''keycdn'', ''kickstarter'',
     ''kickstarter-k'', ''korvue'', ''laravel'', ''lastfm'', ''lastfm-square'', ''leanpub'',
     ''less'', ''line'', ''linkedin'', ''linkedin-in'', ''linkedin-square'', ''linode'',
     ''linux'', ''lyft'', ''magento'', ''mailchimp'', ''mandalorian'', ''markdown'',
     ''mastodon'', ''maxcdn'', ''mdb'', ''meanpath'', ''medapps'', ''medium'', ''medium-m'',
     ''medrt'', ''meetup'', ''megaport'', ''mendeley'', ''microsoft'', ''mix'', ''mixcloud'',
     ''mizuni'', ''modx'', ''monero'', ''napster'', ''neos'', ''nimblr'', ''node'',
     ''node-js'', ''npm'', ''ns8'', ''nutritionix'', ''odnoklassniki'',
     ''odnoklassniki-square'', ''old-republic'', ''opencart'', ''openid'', ''opera'',
     ''optin-monster'', ''orcid'', ''osi'', ''page4'', ''pagelines'', ''palfed'', ''patreon'',
     ''paypal'', ''penny-arcade'', ''periscope'', ''phabricator'', ''phoenix-framework'',
     ''phoenix-squadron'', ''php'', ''pied-piper'', ''pied-piper-alt'', ''pied-piper-hat'',
     ''pied-piper-pp'', ''pinterest'', ''pinterest-p'', ''pinterest-square'', ''playstation'',
     ''product-hunt'', ''pushed'', ''python'', ''qq'', ''quinscape'', ''quora'', ''r-project'',
     ''raspberry-pi'', ''ravelry'', ''react'', ''reacteurope'', ''readme'', ''rebel'',
     ''red-river'', ''reddit'', ''reddit-alien'', ''reddit-square'', ''redhat'', ''renren'',
     ''replyd'', ''researchgate'', ''resistance'', ''resolving'', ''rev'', ''rocketchat'',
     ''rockrms'', ''s15'', ''safari'', ''salesforce'', ''sass'', ''schlix'', ''scribd'',
     ''searchengin'', ''sellcast'', ''sellsy'', ''servicestack'', ''shirtsinbulk'',
     ''shopware'', ''simplybuilt'', ''sistrix'', ''sith'', ''sketch'', ''skyatlas'', ''skype'',
     ''slack'', ''slack-hash'', ''slideshare'', ''snapchat'', ''snapchat-ghost'',
     ''snapchat-square'', ''soundcloud'', ''sourcetree'', ''speakap'', ''speaker-deck'',
     ''spotify'', ''squarespace'', ''stack-exchange'', ''stack-overflow'', ''stackpath'',
     ''staylinked'', ''steam'', ''steam-square'', ''steam-symbol'', ''sticker-mule'',
     ''strava'', ''stripe'', ''stripe-s'', ''studiovinari'', ''stumbleupon'',
     ''stumbleupon-circle'', ''superpowers'', ''supple'', ''suse'', ''swift'', ''symfony'',
     ''teamspeak'', ''telegram'', ''telegram-plane'', ''tencent-weibo'', ''the-red-yeti'',
     ''themeco'', ''themeisle'', ''think-peaks'', ''trade-federation'', ''trello'',
     ''tripadvisor'', ''tumblr'', ''tumblr-square'', ''twitch'', ''twitter'',
     ''twitter-square'', ''typo3'', ''uber'', ''ubuntu'', ''uikit'', ''umbraco'',
     ''uniregistry'', ''untappd'', ''ups'', ''usps'', ''ussunnah'', ''vaadin'', ''viacoin'',
     ''viadeo'', ''viadeo-square'', ''viber'', ''vimeo'', ''vimeo-square'', ''vimeo-v'',
     ''vine'', ''vk'', ''vnv'', ''vuejs'', ''waze'', ''wechat'', ''weebly'', ''weibo'',
     ''weixin'', ''whatsapp'', ''whatsapp-square'', ''whmcs'', ''wikipedia-w'', ''windows'',
     ''wix'', ''wizards-of-the-coast'', ''wolf-pack-battalion'', ''wordpress'',
     ''wordpress-simple'', ''wpbeginner'', ''wpexplorer'', ''wpforms'', ''wpressr'', ''xbox'',
     ''xing'', ''xing-square'', ''y-combinator'', ''y-combinator-square'', ''yahoo'',
     ''yammer'', ''yandex'', ''yandex-international'', ''yarn'', ''yc'', ''yc-square'',
     ''yelp'', ''yoast'', ''youtube'', ''youtube-square'', ''zhihu'']"

definition accessibility_icons :: "string list" where
  "accessibility_icons =
    [''accessible-icon'', ''american-sign-language-interpreting'',
     ''assistive-listening-systems'', ''audio-description'', ''blind'', ''braille'', ''deaf'',
     ''deafness'', ''hard-of-hearing'', ''low-vision'', ''sign-language'',
     ''universal-access'', ''wheelchair'', ''wheelchair-alt'']"

definition arrows_icons :: "string list" where
  "arrows_icons =
    [''angle-double-down'', ''angle-double-left'', ''angle-double-right'', ''angle-double-up'',
     ''angle-down'', ''angle-left'', ''angle-right'', ''angle-up'', ''arrow-alt-circle-down'',
     ''arrow-alt-circle-left'', ''arrow-alt-circle-right'', ''arrow-alt-circle-up'',
     ''arrow-circle-down'', ''arrow-circle-left'', ''arrow-circle-right'', ''arrow-circle-up'',
     ''arrow-down'', ''arrow-left'', ''arrow-right'', ''arrow-up'', ''arrows'', ''arrows-alt'',
     ''arrows-alt-h'', ''arrows-alt-v'', ''arrows-h'', ''arrows-v'', ''caret-down'',
     ''caret-left'', ''caret-right'', ''caret-up'', ''chevron-circle-down'',
     ''chevron-circle-left'', ''chevron-circle-right'', ''chevron-circle-up'',
     ''chevron-down'', ''chevron-left'', ''chevron-right'', ''chevron-up'', ''compress'',
     ''compress-arrows-alt'', ''exchange'', ''exchange-alt'', ''expand'',
     ''expand-arrows-alt'', ''external-link'', ''external-link-alt'', ''external-link-square'',
     ''external-link-square-alt'', ''level-down'', ''level-down-alt'', ''level-up'',
     ''level-up-alt'', ''location-arrow'', ''long-arrow-alt-down'', ''long-arrow-alt-left'',
     ''long-arrow-alt-right'', ''long-arrow-alt-up'', ''long-arrow-down'', ''long-arrow-left'',
     ''long-arrow-right'', ''long-arrow-up'', ''random'', ''redo'', ''redo-alt'', ''reply'',
     ''reply-all'', ''retweet'', ''share'', ''share-alt'', ''share-alt-square'',
     ''share-square'', ''step-backward'', ''step-forward'', ''sync'', ''sync-alt'', ''undo'',
     ''undo-alt'']"

definition medical_icons :: "string list" where
  "medical_icons =
    [''allergies'', ''ambulance'', ''band-aid'', ''briefcase-medical'', ''capsules'',
     ''clinic-medical'', ''comment-medical'', ''diagnoses'', ''dna'', ''file-medical'',
     ''file-medical-alt'', ''first-aid'', ''heartbeat'', ''hospital'', ''hospital-alt'',
     ''hospital-symbol'', ''laptop-medical'', ''medkit'', ''microscope'', ''notes-medical'',
     ''pills'', ''plus'', ''prescription'', ''prescription-bottle'',
     ''prescription-bottle-alt'', ''procedures'', ''stethoscope'', ''syringe'', ''tablets'',
     ''teeth'', ''teeth-open'', ''thermometer'', ''tooth'', ''user-md'', ''user-nurse'',
     ''vial'', ''vials'', ''x-ray'']"

definition communication_icons :: "string list" where
  "communication_icons =
    [''address-book'', ''address-card'', ''at'', ''bell'', ''bell-slash'', ''bullhorn'',
     ''comment'', ''comment-alt'', ''comment-dots'', ''comment-slash'', ''commenting'',
     ''comments'', ''envelope'', ''envelope-open'', ''envelope-open-text'',
     ''envelope-square'', ''fax'', ''inbox'', ''language'', ''mail-bulk'', ''microphone'',
     ''microphone-alt'', ''microphone-alt-slash'', ''microphone-slash'', ''mobile'',
     ''mobile-alt'', ''phone'', ''phone-alt'', ''phone-slash'', ''phone-square'',
     ''phone-square-alt'', ''phone-volume'', ''rss'', ''rss-square'', ''satellite'',
     ''satellite-dish'', ''sms'', ''voicemail'', ''volume-down'', ''volume-mute'',
     ''volume-off'', ''volume-up'', ''wifi'']"

definition files_icons :: "string list" where
  "files_icons =
    [''archive'', ''book'', ''book-dead'', ''book-medical'', ''book-open'', ''book-reader'',
     ''bookmark'', ''clipboard'', ''clipboard-check'', ''clipboard-list'', ''copy'', ''file'',
     ''file-alt'', ''file-archive'', ''file-audio'', ''file-code'', ''file-contract'',
     ''file-csv'', ''file-download'', ''file-excel'', ''file-export'', ''file-image'',
     ''file-import'', ''file-invoice'', ''file-invoice-dollar'', ''file-pdf'',
     ''file-powerpoint'', ''file-prescription'', ''file-signature'', ''file-text'',
     ''file-upload'', ''file-video'', ''file-word'', ''folder'', ''folder-minus'',
     ''folder-open'', ''folder-plus'', ''paste'', ''save'', ''scroll'', ''sticky-note'']"

definition interface_icons :: "string list" where
  "interface_icons =
    [''adjust'', ''bars'', ''border-all'', ''border-none'', ''border-style'', ''cog'',
     ''cogs'', ''columns'', ''compress'', ''desktop'', ''download'', ''edit'', ''ellipsis-h'',
     ''ellipsis-v'', ''expand'', ''eye'', ''eye-slash'', ''filter'', ''grip-horizontal'',
     ''grip-lines'', ''grip-lines-vertical'', ''grip-vertical'', ''home'', ''i-cursor'',
     ''list'', ''list-alt'', ''list-ol'', ''list-ul'', ''lock'', ''lock-open'', ''menu'',
     ''minus'', ''minus-circle'', ''minus-square'', ''mouse-pointer'', ''navicon'', ''plus'',
     ''plus-circle'', ''plus-square'', ''power-off'', ''search'', ''search-minus'',
     ''search-plus'', ''server'', ''settings'', ''sliders'', ''sliders-h'', ''sort'',
     ''sort-down'', ''sort-up'', ''table'', ''tablet'', ''tablet-alt'', ''tasks'', ''th'',
     ''th-large'', ''th-list'', ''times'', ''times-circle'', ''toggle-off'', ''toggle-on'',
     ''tools'', ''trash'', ''trash-alt'', ''trash-restore'', ''trash-restore-alt'', ''unlock'',
     ''unlock-alt'', ''upload'', ''window-close'', ''window-maximize'', ''window-minimize'',
     ''window-restore'']"

definition text_icons :: "string list" where
  "text_icons =
    [''align-center'', ''align-justify'', ''align-left'', ''align-right'', ''bold'', ''font'',
     ''heading'', ''highlighter'', ''italic'', ''paragraph'', ''quote-left'', ''quote-right'',
     ''strikethrough'', ''subscript'', ''superscript'', ''text-height'', ''text-width'',
     ''underline'']"

definition emotions_icons :: "string list" where
  "emotions_icons =
    [''angry'', ''dizzy'', ''flushed'', ''frown'', ''frown-open'', ''grimace'', ''grin'',
     ''grin-alt'', ''grin-beam'', ''grin-beam-sweat'', ''grin-hearts'', ''grin-squint'',
     ''grin-squint-tears'', ''grin-stars'', ''grin-tears'', ''grin-tongue'',
     ''grin-tongue-squint'', ''grin-tongue-wink'', ''grin-wink'', ''kiss'', ''kiss-beam'',
     ''kiss-wink-heart'', ''laugh'', ''laugh-beam'', ''laugh-squint'', ''laugh-wink'', ''meh'',
     ''meh-blank'', ''meh-rolling-eyes'', ''sad-cry'', ''sad-tear'', ''smile'', ''smile-beam'',
     ''smile-wink'', ''surprise'', ''tired'']"

definition transportation_icons :: "string list" where
  "transportation_icons =
    [''bicycle'', ''bus'', ''bus-alt'', ''car'', ''car-alt'', ''car-battery'', ''car-crash'',
     ''car-side'', ''motorcycle'', ''plane'', ''plane-arrival'', ''plane-departure'', ''ship'',
     ''shuttle-van'', ''subway'', ''taxi'', ''train'', ''tram'', ''truck'', ''truck-loading'',
     ''truck-monster'', ''truck-moving'', ''truck-pickup'']"

definition food_icons :: "string list" where
  "food_icons =
    [''apple-alt'', ''bacon'', ''beer'', ''birthday-cake'', ''bread-slice'', ''candy-cane'',
     ''carrot'', ''cheese'', ''cocktail'', ''coffee'', ''cookie'', ''cookie-bite'',
     ''cutlery'', ''drumstick-bite'', ''egg'', ''hamburger'', ''hotdog'', ''ice-cream'',
     ''lemon'', ''pepper-hot'', ''pizza-slice'', ''utensil-spoon'', ''utensils'',
     ''wine-bottle'', ''wine-glass'', ''wine-glass-alt'']"

definition science_icons :: "string list" where
  "science_icons =
    [''atom'', ''battery'', ''battery-empty'', ''battery-full'', ''battery-half'',
     ''battery-quarter'', ''battery-three-quarters'', ''beaker'', ''biohazard'', ''brain'',
     ''burn'', ''calculator'', ''cloud'', ''dna'', ''fire'', ''flask'', ''magnet'',
     ''microscope'', ''radiation'', ''radiation-alt'', ''rainbow'', ''seedling'',
     ''solar-panel'', ''temperature-high'', ''temperature-low'']"

definition categories :: "(string \<times> string list) list" where
  "categories =
    [(''brand'', brand_icons), (''accessibility'', accessibility_icons),
     (''arrows'', arrows_icons), (''medical'', medical_icons),
     (''communication'', communication_icons), (''files'', files_icons),
     (''interface'', interface_icons), (''text'', text_icons), (''emotions'', emotions_icons),
     (''transportation'', transportation_icons), (''food'', food_icons),
     (''science'', science_icons)]"

definition category_keywords :: "(string \<times> string list) list" where
  "category_keywords =
    [(''accessibility'', [''accessibility'', ''disabled'', ''universal'', ''access'']),
     (''arrows'', [''arrow'', ''direction'', ''navigation'', ''movement'']),
     (''medical'', [''medical'', ''health'', ''healthcare'', ''hospital'']),
     (''communication'', [''communication'', ''contact'', ''message'', ''talk'']),
     (''files'', [''file'', ''document'', ''storage'', ''data'']),
     (''interface'', [''interface'', ''ui'', ''control'', ''button'']),
     (''text'', [''text'', ''typography'', ''format'', ''writing'']),
     (''emotions'', [''emotion'', ''face'', ''feeling'', ''expression'']),
     (''transportation'', [''transport'', ''vehicle'', ''travel'', ''movement'']),
     (''food'', [''food'', ''dining'', ''meal'', ''kitchen'']),
     (''science'', [''science'', ''research'', ''laboratory'', ''technology''])]"

text \<open>\<^verbatim>\<open>any(brand in icon_name for brand in categories['brand'])\<close>.\<close>

definition any_brand_in :: "string \<Rightarrow> bool" where
  "any_brand_in icon_name = list_ex (\<lambda>brand. is_substring brand icon_name) brand_icons"

text \<open>
  The loop \<^verbatim>\<open>for cat_name, icons in categories.items()\<close>: the first table that has
  \<^verbatim>\<open>icon_name\<close> as an element sets the category and ends the loop; \<^verbatim>\<open>cat\<close> is the
  value of the variable \<^verbatim>\<open>category\<close> before the loop.
\<close>

fun scan_categories :: "string \<Rightarrow> (string \<times> string list) list \<Rightarrow> string \<Rightarrow> string" where
  "scan_categories icon_name [] cat = cat"
| "scan_categories icon_name ((cat_name, icons) # rest) cat =
     (if icon_name \<in> set icons then cat_name else scan_categories icon_name rest cat)"

text \<open>
  \<^verbatim>\<open>list(set(keywords))\<close> is modelled by \<^const>\<open>remdups\<close>: the elements without
  repetition. Python leaves the order of the resulting list to the hashing of the strings;
  no statement below depends on it.
\<close>

definition categorize_icon :: "string \<Rightarrow> string \<times> string list" where
  "categorize_icon icon_name =
     (let (category, keywords) =
            (if any_brand_in icon_name
             then (''brand'', [''brand'', ''social'', ''platform'', ''service''])
             else (''misc'', []));
          category = scan_categories icon_name categories category;
          icon_words = split_ws (replace_char CHR ''-'' CHR '' '' icon_name);
          keywords = keywords @ icon_words;
          keywords = (case map_of category_keywords category of
                        Some ks \<Rightarrow> keywords @ ks
                      | None \<Rightarrow> keywords);
          keywords = remdups keywords;
          keywords = filter (\<lambda>k. k \<noteq> [] \<and> length k > 1) keywords
      in (category, keywords))"

subsection \<open>determine\_icon\_type\<close>

definition brand_indicators :: "string list" where
  "brand_indicators =
    [''facebook'', ''twitter'', ''instagram'', ''youtube'', ''google'', ''apple'',
     ''microsoft'', ''amazon'', ''github'', ''linkedin'', ''pinterest'', ''reddit'',
     ''snapchat'', ''spotify'', ''netflix'', ''paypal'', ''visa'', ''mastercard'', ''bitcoin'',
     ''ethereum'', ''android'', ''windows'', ''adobe'', ''angular'', ''react'', ''vue'',
     ''node'', ''npm'', ''python'', ''php'']"

definition regular_indicators :: "string list" where
  "regular_indicators = [''-o'', ''outline'', ''regular'']"

definition determine_icon_type :: "string \<Rightarrow> string" where
  "determine_icon_type icon_name =
     (if list_ex (\<lambda>brand. is_substring brand icon_name) brand_indicators then ''brand''
      else if list_ex (\<lambda>indicator. is_substring indicator icon_name) regular_indicators
      then ''regular''
      else ''solid'')"

subsection \<open>create\_display\_name\<close>

definition special_cases :: "(string \<times> string) list" where
  "special_cases =
    [(''alt'', ''Alternative''), (''o'', ''''), (''usa'', ''USA''), (''usd'', ''USD''),
     (''eur'', ''EUR''), (''gbp'', ''GBP''), (''jpy'', ''JPY''), (''krw'', ''KRW''),
     (''inr'', ''INR''), (''cny'', ''CNY''), (''btc'', ''BTC''), (''eth'', ''ETH''),
     (''id'', ''ID''), (''api'', ''API''), (''url'', ''URL''), (''html'', ''HTML''),
     (''css'', ''CSS''), (''js'', ''JavaScript''), (''php'', ''PHP''), (''sql'', ''SQL''),
     (''xml'', ''XML''), (''json'', ''JSON''), (''pdf'', ''PDF''), (''csv'', ''CSV''),
     (''rss'', ''RSS''), (''wifi'', ''WiFi''), (''usb'', ''USB''), (''gps'', ''GPS''),
     (''sms'', ''SMS''), (''ui'', ''UI''), (''ux'', ''UX''), (''seo'', ''SEO''),
     (''cms'', ''CMS''), (''crm'', ''CRM''), (''erp'', ''ERP''), (''aws'', ''AWS''),
     (''cdn'', ''CDN''), (''dns'', ''DNS''), (''vpn'', ''VPN''), (''ssh'', ''SSH''),
     (''ftp'', ''FTP''), (''http'', ''HTTP''), (''https'', ''HTTPS'')]"

text \<open>
  The loop \<^verbatim>\<open>for word in words\<close>; the second argument is the list
  \<^verbatim>\<open>processed_words\<close> built so far.
\<close>

fun process_words :: "string list \<Rightarrow> string list \<Rightarrow> string list" where
  "process_words [] processed_words = processed_words"
| "process_words (word # words) processed_words =
     (case map_of special_cases word of
        Some replacement \<Rightarrow>
          (if replacement \<noteq> [] then process_words words (processed_words @ [replacement])
           else process_words words processed_words)
      | None \<Rightarrow> process_words words (processed_words @ [capitalize word]))"

definition create_display_name :: "string \<Rightarrow> string" where
  "create_display_name icon_name =
     (let words = split_on CHR ''-'' icon_name
      in join '' '' (process_words words []))"

subsection \<open>build\_comprehensive\_icon\_list\<close>

record icon_record =
  name :: string
  displayName :: string
  cssClass :: string
  iconType :: string
  category :: string
  "keywords" :: "string list"

record metadata =
  version :: string
  totalIcons :: nat
  description :: string
  source :: string
  license :: string
  lastUpdated :: string
  categories_list :: "string list"
  iconTypes :: "string list"

record catalog =
  metadata :: metadata
  icons :: "icon_record list"
  categories_map :: "(string \<times> string) list"

text \<open>
  The list comprehension that reads the file: every line stripped, the lines that are
  empty after stripping left out.
\<close>

definition read_icon_names :: "string list \<Rightarrow> string list" where
  "read_icon_names file_lines = map strip (filter (\<lambda>line. strip line \<noteq> []) file_lines)"

text \<open>
  The records one iteration of the main loop appends to \<^verbatim>\<open>icons\<close> for a non-empty
  \<^verbatim>\<open>icon_name\<close>. \<^verbatim>\<open>icon_name[:-2]\<close> drops the last two characters.
\<close>

definition icon_entries :: "string \<Rightarrow> error + icon_record list" where
  "icon_entries icon_name =
     (let (cat, kws) = categorize_icon icon_name;
          icon_type = determine_icon_type icon_name
      in if endswith icon_name ''-o'' then
           (let base_name = take (length icon_name - 2) icon_name
            in Inr [\<lparr>name = base_name, displayName = create_display_name base_name,
                      cssClass = ''lar la-'' @ base_name, iconType = ''regular'',
                      category = cat, keywords = kws\<rparr>,
                    \<lparr>name = base_name, displayName = create_display_name base_name,
                      cssClass = ''las la-'' @ base_name, iconType = ''solid'',
                      category = cat, keywords = kws\<rparr>])
         else
           (case get_css_class icon_name icon_type of
              Inl e \<Rightarrow> Inl e
            | Inr css \<Rightarrow>
                Inr [\<lparr>name = icon_name, displayName = create_display_name icon_name,
                      cssClass = css, iconType = icon_type,
                      category = cat, keywords = kws\<rparr>]))"

text \<open>
  The main loop over \<^verbatim>\<open>icon_names\<close>, with its state: the list \<^verbatim>\<open>icons\<close> and the set
  \<^verbatim>\<open>categories_used\<close>, kept as a list without repetition (\<^verbatim>\<open>add\<close> is
  \<^const>\<open>List.insert\<close>). An exception ends the loop.
\<close>

fun build_icons ::
  "string list \<Rightarrow> icon_record list \<times> string list \<Rightarrow> error + (icon_record list \<times> string list)"
where
  "build_icons [] (icons_acc, categories_used) = Inr (icons_acc, categories_used)"
| "build_icons (icon_name # rest) (icons_acc, categories_used) =
     (if icon_name = [] then build_icons rest (icons_acc, categories_used)
      else
        (case icon_entries icon_name of
           Inl e \<Rightarrow> Inl e
         | Inr new \<Rightarrow>
             build_icons rest
               (icons_acc @ new, List.insert (fst (categorize_icon icon_name)) categories_used)))"

definition category_descriptions :: "(string \<times> string) list" where
  "category_descriptions =
    [(''accessibility'', ''Accessibility & Universal Access''),
     (''achievements'', ''Awards & Achievements''), (''arrows'', ''Arrows & Directions''),
     (''brand'', ''Brand & Social Media''), (''buildings'', ''Buildings & Architecture''),
     (''business'', ''Business & Commerce''), (''communication'', ''Communication & Contact''),
     (''emotions'', ''Emotions & Expressions''), (''files'', ''Files & Documents''),
     (''food'', ''Food & Dining''), (''geography'', ''Geography & Maps''),
     (''household'', ''Home & Household''), (''interface'', ''Interface & Controls''),
     (''maritime'', ''Maritime & Nautical''), (''medical'', ''Medical & Health''),
     (''misc'', ''Miscellaneous''), (''science'', ''Science & Research''),
     (''symbols'', ''Symbols & Signs''), (''text'', ''Text & Typography''),
     (''transportation'', ''Transportation & Vehicles'')]"

text \<open>
  The function after the file has been read: \<^verbatim>\<open>icon_names\<close> is the list the reading
  produced. \<^verbatim>\<open>sorted\<close> orders strings lexicographically by character code, which is the
  order of \<^typ>\<open>string\<close> here.
\<close>

definition build_comprehensive_icon_list :: "string list \<Rightarrow> error + catalog" where
  "build_comprehensive_icon_list icon_names =
     (case build_icons icon_names ([], []) of
        Inl e \<Rightarrow> Inl e
      | Inr (icons_acc, categories_used) \<Rightarrow>
          Inr \<lparr>metadata =
                 \<lparr>version = ''1.3.0'',
                  totalIcons = length icons_acc,
                  description = ''Line Awesome - Free icon font replacement for Font Awesome'',
                  source = ''https://icons8.com/line-awesome'',
                  license = ''MIT'',
                  lastUpdated = ''2025-09-16'',
                  categories_list = categories_used,
                  iconTypes = [''solid'', ''regular'', ''brand'']\<rparr>,
               icons = icons_acc,
               categories_map =
                 map (\<lambda>cat. (cat, case map_of category_descriptions cat of
                                     Some d \<Rightarrow> d
                                   | None \<Rightarrow> title cat))
                   (sort categories_used)\<rparr>)"

section \<open>Properties\<close>

subsection \<open>The string primitives meet their Python meaning\<close>

lemma startswith_iff: "startswith s p \<longleftrightarrow> (\<exists>r. s = p @ r)"
  by (induction s p rule: startswith.induct) auto

lemma endswith_iff: "endswith s p \<longleftrightarrow> (\<exists>r. s = r @ p)"
proof -
  have "endswith s p \<longleftrightarrow> (\<exists>r. rev s = rev p @ r)"
    by (simp add: endswith_def startswith_iff)
  also have "\<dots> \<longleftrightarrow> (\<exists>r. s = r @ p)"
  proof
    assume "\<exists>r. rev s = rev p @ r"
    then obtain r where "rev s = rev p @ r" ..
    then have "s = rev r @ p" by (metis rev_append rev_rev_ident)
    then show "\<exists>r. s = r @ p" ..
  next
    assume "\<exists>r. s = r @ p"
    then obtain r where "s = r @ p" ..
    then have "rev s = rev p @ rev r" by simp
    then show "\<exists>r. rev s = rev p @ r" ..
  qed
  finally show ?thesis .
qed

lemma is_substring_iff: "is_substring sub s \<longleftrightarrow> (\<exists>a b. s = a @ sub @ b)"
proof (induction s)
  case Nil
  then show ?case by auto
next
  case (Cons c cs)
  show ?case
  proof
    assume "is_substring sub (c # cs)"
    then consider "startswith (c # cs) sub" | "is_substring sub cs" by auto
    then show "\<exists>a b. c # cs = a @ sub @ b"
    proof cases
      case 1
      then obtain r where "c # cs = sub @ r" by (auto simp: startswith_iff)
      then have "c # cs = [] @ sub @ r" by simp
      then show ?thesis by blast
    next
      case 2
      then obtain a b where "cs = a @ sub @ b" using Cons.IH by blast
      then have "c # cs = (c # a) @ sub @ b" by simp
      then show ?thesis by blast
    qed
  next
    assume "\<exists>a b. c # cs = a @ sub @ b"
    then obtain a b where ab: "c # cs = a @ sub @ b" by blast
    show "is_substring sub (c # cs)"
    proof (cases a)
      case Nil
      with ab have "startswith (c # cs) sub" by (auto simp: startswith_iff)
      then show ?thesis by simp
    next
      case (Cons x a')
      with ab have "cs = a' @ sub @ b" by simp
      then have "is_substring sub cs" using Cons.IH by blast
      then show ?thesis by simp
    qed
  qed
qed

subsection \<open>The main loop\<close>

lemma determine_icon_type_cases:
  "determine_icon_type icon_name \<in> {''brand'', ''regular'', ''solid''}"
  by (simp add: determine_icon_type_def)

lemma get_css_class_determined:
  "get_css_class icon_name (determine_icon_type icon_name) =
     Inr ((if determine_icon_type icon_name = ''brand'' then ''lab''
           else if determine_icon_type icon_name = ''regular'' then ''lar'' else ''las'')
          @ '' la-'' @ icon_name)"
  by (simp add: get_css_class_def prefix_map_def determine_icon_type_def)

lemma icon_entries_outline:
  assumes "endswith icon_name ''-o''"
  shows "icon_entries icon_name =
     Inr [\<lparr>name = take (length icon_name - 2) icon_name,
           displayName = create_display_name (take (length icon_name - 2) icon_name),
           cssClass = ''lar la-'' @ take (length icon_name - 2) icon_name,
           iconType = ''regular'',
           category = fst (categorize_icon icon_name),
           keywords = snd (categorize_icon icon_name)\<rparr>,
          \<lparr>name = take (length icon_name - 2) icon_name,
           displayName = create_display_name (take (length icon_name - 2) icon_name),
           cssClass = ''las la-'' @ take (length icon_name - 2) icon_name,
           iconType = ''solid'',
           category = fst (categorize_icon icon_name),
           keywords = snd (categorize_icon icon_name)\<rparr>]"
  using assms by (simp add: icon_entries_def Let_def split_beta)

lemma icon_entries_plain:
  assumes "\<not> endswith icon_name ''-o''"
  shows "icon_entries icon_name =
     Inr [\<lparr>name = icon_name,
           displayName = create_display_name icon_name,
           cssClass = (if determine_icon_type icon_name = ''brand'' then ''lab''
                       else if determine_icon_type icon_name = ''regular'' then ''lar''
                       else ''las'') @ '' la-'' @ icon_name,
           iconType = determine_icon_type icon_name,
           category = fst (categorize_icon icon_name),
           keywords = snd (categorize_icon icon_name)\<rparr>]"
  using assms by (simp add: icon_entries_def Let_def split_beta get_css_class_determined)

lemma icon_entries_total: "\<exists>rs. icon_entries icon_name = Inr rs"
  by (cases "endswith icon_name ''-o''") (simp_all add: icon_entries_outline icon_entries_plain)

lemma icon_entries_projr: "icon_entries icon_name = Inr (projr (icon_entries icon_name))"
  using icon_entries_total [of icon_name] by auto

lemma build_icons_eq:
  "build_icons icon_names (icons_acc, categories_used) =
     Inr (icons_acc @ concat (map (\<lambda>n. projr (icon_entries n)) (filter (\<lambda>n. n \<noteq> []) icon_names)),
          fold (\<lambda>n cu. List.insert (fst (categorize_icon n)) cu)
            (filter (\<lambda>n. n \<noteq> []) icon_names) categories_used)"
proof (induction icon_names arbitrary: icons_acc categories_used)
  case Nil
  then show ?case by simp
next
  case (Cons n ns)
  show ?case
  proof (cases "n = []")
    case True
    then show ?thesis using Cons.IH by simp
  next
    case False
    obtain rs where rs: "icon_entries n = Inr rs" using icon_entries_total by blast
    then show ?thesis using False Cons.IH by simp
  qed
qed

lemma set_fold_insert:
  "set (fold (\<lambda>n cu. List.insert (f n) cu) ns cu0) = set cu0 \<union> f ` set ns"
  by (induction ns arbitrary: cu0) auto

lemma distinct_fold_insert:
  "distinct cu0 \<Longrightarrow> distinct (fold (\<lambda>n cu. List.insert (f n) cu) ns cu0)"
  by (induction ns arbitrary: cu0) auto

lemma entries_categories:
  "category ` set (projr (icon_entries n)) = {fst (categorize_icon n)}"
  by (cases "endswith n ''-o''") (simp_all add: icon_entries_outline icon_entries_plain)

lemma icons_categories:
  "category ` set (concat (map (\<lambda>n. projr (icon_entries n)) ns)) = (\<lambda>n. fst (categorize_icon n)) ` set ns"
proof -
  have "category ` set (concat (map (\<lambda>n. projr (icon_entries n)) ns))
      = (\<Union>n\<in>set ns. category ` set (projr (icon_entries n)))"
    by auto
  also have "\<dots> = (\<Union>n\<in>set ns. {fst (categorize_icon n)})"
    by (simp only: entries_categories)
  also have "\<dots> = (\<lambda>n. fst (categorize_icon n)) ` set ns" by auto
  finally show ?thesis .
qed

lemma build_document:
  "\<exists>d. build_comprehensive_icon_list icon_names = Inr d \<and>
       icons d = concat (map (\<lambda>n. projr (icon_entries n)) (filter (\<lambda>n. n \<noteq> []) icon_names)) \<and>
       map fst (categories_map d) =
         sort (fold (\<lambda>n cu. List.insert (fst (categorize_icon n)) cu)
           (filter (\<lambda>n. n \<noteq> []) icon_names) [])"
  by (simp add: build_comprehensive_icon_list_def build_icons_eq comp_def)

subsection \<open>The stylesheet class\<close>

text \<open>
  C1 (as amended). For every base name and every icon type among "solid", "regular" and
  "brand", \<^const>\<open>get_css_class\<close> returns the two-token string
  \<^verbatim>\<open><prefix> la-<baseName>\<close>: the first token is the prefix the three-entry table gives
  the icon type, the second token is the base name behind the fixed \<^verbatim>\<open>la-\<close>, whatever the
  icon type.
\<close>

theorem get_css_class_two_tokens:
  assumes "icon_type \<in> {''solid'', ''regular'', ''brand''}"
  shows "\<exists>prefix. map_of prefix_map icon_type = Some prefix \<and>
           get_css_class base_name icon_type = Inr (prefix @ '' '' @ ''la-'' @ base_name)"
  using assms by (auto simp: get_css_class_def prefix_map_def)

theorem get_css_class_two_tokens_witness:
  "''brand'' \<in> {''solid'', ''regular'', ''brand''} \<and>
   (\<exists>prefix. map_of prefix_map ''brand'' = Some prefix \<and>
      get_css_class ''github'' ''brand'' = Inr (prefix @ '' '' @ ''la-'' @ ''github'')) \<and>
   get_css_class ''github'' ''brand'' = Inr ''lab la-github''"
  using get_css_class_two_tokens [of "''brand''" "''github''"]
  by (simp add: get_css_class_def prefix_map_def)

text \<open>
  C1 as the specification words it, with the table's prefix in both tokens, fails: for
  "solid" the table's prefix is \<^verbatim>\<open>las\<close>, and the class of \<^verbatim>\<open>home\<close> is \<^verbatim>\<open>las la-home\<close>, not
  \<^verbatim>\<open>las las-home\<close>.
\<close>

theorem get_css_class_same_prefix_counterexample:
  "map_of prefix_map ''solid'' = Some ''las'' \<and>
   get_css_class ''home'' ''solid'' = Inr ''las la-home'' \<and>
   get_css_class ''home'' ''solid'' \<noteq> Inr (''las'' @ '' '' @ ''las'' @ ''-'' @ ''home'')"
  by (simp add: get_css_class_def prefix_map_def)

text \<open>
  C7. \<^const>\<open>get_css_class\<close> returns a class string exactly for the icon types "solid",
  "regular" and "brand", whatever the base name; for any other icon type the table lookup
  misses and the function raises \<^verbatim>\<open>KeyError\<close> on that icon type: no prefix is defaulted.
\<close>

theorem get_css_class_succeeds_iff:
  "((\<exists>css. get_css_class icon_name icon_type = Inr css) \<longleftrightarrow>
      icon_type \<in> {''solid'', ''regular'', ''brand''}) \<and>
   (icon_type \<notin> {''solid'', ''regular'', ''brand''} \<longrightarrow>
      get_css_class icon_name icon_type = Inl (KeyError icon_type))"
  by (simp add: get_css_class_def prefix_map_def)

theorem get_css_class_succeeds_iff_witness:
  "''duotone'' \<notin> {''solid'', ''regular'', ''brand''} \<and>
   get_css_class ''home'' ''duotone'' = Inl (KeyError ''duotone'') \<and>
   (\<nexists>css. get_css_class ''home'' ''duotone'' = Inr css)"
  using get_css_class_succeeds_iff [of "''home''" "''duotone''"] by simp

subsection \<open>The categories of the document\<close>

text \<open>
  C8. For every list of identifiers the function returns a document, and the keys of its
  \<^verbatim>\<open>categories\<close> mapping are exactly the categories of its icon records: every record's
  category is a key, no key is the category of no record, and no key occurs twice. For the
  empty list the document has no record and an empty mapping.
\<close>

theorem categories_map_keys:
  "(\<exists>d. build_comprehensive_icon_list icon_names = Inr d \<and>
       fst ` set (categories_map d) = category ` set (icons d) \<and>
       distinct (map fst (categories_map d))) \<and>
   (\<exists>d. build_comprehensive_icon_list [] = Inr d \<and> icons d = [] \<and> categories_map d = [])"
proof
  obtain d where d: "build_comprehensive_icon_list icon_names = Inr d"
    and ic: "icons d =
      concat (map (\<lambda>n. projr (icon_entries n)) (filter (\<lambda>n. n \<noteq> []) icon_names))"
    and cm: "map fst (categories_map d) =
      sort (fold (\<lambda>n cu. List.insert (fst (categorize_icon n)) cu)
        (filter (\<lambda>n. n \<noteq> []) icon_names) [])"
    using build_document by blast
  have "fst ` set (categories_map d) = set (map fst (categories_map d))" by simp
  also have "\<dots> = (\<lambda>n. fst (categorize_icon n)) ` set (filter (\<lambda>n. n \<noteq> []) icon_names)"
    unfolding cm by (simp add: set_fold_insert)
  also have "\<dots> = category ` set (icons d)"
    unfolding ic by (simp only: icons_categories)
  finally have keys: "fst ` set (categories_map d) = category ` set (icons d)" .
  have "distinct (map fst (categories_map d))"
    unfolding cm by (simp add: distinct_fold_insert)
  with d keys
  show "\<exists>d. build_comprehensive_icon_list icon_names = Inr d \<and>
       fst ` set (categories_map d) = category ` set (icons d) \<and>
       distinct (map fst (categories_map d))"
    by blast
next
  show "\<exists>d. build_comprehensive_icon_list [] = Inr d \<and> icons d = [] \<and> categories_map d = []"
    by (simp add: build_comprehensive_icon_list_def)
qed

subsection \<open>Helper facts on the loop and on the category scan\<close>

lemma build_icons_of_split:
  assumes "icon_name \<noteq> []"
  shows "\<exists>d db da. build_comprehensive_icon_list (before @ icon_name # after) = Inr d \<and>
           build_comprehensive_icon_list before = Inr db \<and>
           build_comprehensive_icon_list after = Inr da \<and>
           icons d = icons db @ projr (icon_entries icon_name) @ icons da"
proof -
  obtain d where d: "build_comprehensive_icon_list (before @ icon_name # after) = Inr d"
    and id: "icons d = concat (map (\<lambda>n. projr (icon_entries n))
               (filter (\<lambda>n. n \<noteq> []) (before @ icon_name # after)))"
    using build_document by blast
  obtain db where db: "build_comprehensive_icon_list before = Inr db"
    and idb: "icons db = concat (map (\<lambda>n. projr (icon_entries n)) (filter (\<lambda>n. n \<noteq> []) before))"
    using build_document by blast
  obtain da where da: "build_comprehensive_icon_list after = Inr da"
    and ida: "icons da = concat (map (\<lambda>n. projr (icon_entries n)) (filter (\<lambda>n. n \<noteq> []) after))"
    using build_document by blast
  have "icons d = icons db @ projr (icon_entries icon_name) @ icons da"
    using assms by (simp add: id idb ida)
  with d db da show ?thesis by blast
qed

lemma scan_categories_find:
  "scan_categories icon_name cats cat =
     (case find (\<lambda>(cat_name, table). icon_name \<in> set table) cats of
        Some (cat_name, table) \<Rightarrow> cat_name
      | None \<Rightarrow> cat)"
  by (induction icon_name cats cat rule: scan_categories.induct) simp_all

lemma fst_categorize_icon:
  "fst (categorize_icon icon_name) =
     scan_categories icon_name categories (if any_brand_in icon_name then ''brand'' else ''misc'')"
  by (simp add: categorize_icon_def Let_def split_beta)

lemma categories_keys:
  "map fst categories =
     [''brand'', ''accessibility'', ''arrows'', ''medical'', ''communication'', ''files'',
      ''interface'', ''text'', ''emotions'', ''transportation'', ''food'', ''science'']"
  by (simp add: categories_def)

lemma find_key_in:
  assumes "find P cats = Some (c, t)"
  shows "c \<in> set (map fst cats)"
proof -
  from assms have "(c, t) \<in> set cats" by (auto simp: find_Some_iff)
  then show ?thesis by force
qed

lemma misc_no_key: "''misc'' \<notin> set (map fst categories)"
  by (simp add: categories_keys)

lemma categorize_icon_category_find:
  "fst (categorize_icon icon_name) =
     (case find (\<lambda>(cat_name, table). icon_name \<in> set table) categories of
        Some (cat_name, table) \<Rightarrow> cat_name
      | None \<Rightarrow> if any_brand_in icon_name then ''brand'' else ''misc'')"
  by (simp add: fst_categorize_icon scan_categories_find)

subsection \<open>Records per identifier\<close>

text \<open>
  C2. For every identifier that ends in the outline suffix \<^verbatim>\<open>-o\<close> (it is \<^verbatim>\<open>base\<close> followed
  by \<^verbatim>\<open>-o\<close>), one iteration of the loop appends exactly two records: first one of icon type
  "regular", then one of icon type "solid". Both have the name \<^verbatim>\<open>base\<close>, the same display name,
  category and keywords; their stylesheet classes are \<^verbatim>\<open>lar la-base\<close> and \<^verbatim>\<open>las la-base\<close>, and
  the second record is the first with only the icon type and the class changed. In the
  document built from any list that holds the identifier, the two records stand next to each
  other, in this order, between the records of the identifiers before and of those after.
\<close>

theorem outline_identifier_two_records:
  assumes "icon_name = base @ ''-o''"
  shows "endswith icon_name ''-o'' \<and>
    (\<exists>r1 r2. icon_entries icon_name = Inr [r1, r2] \<and>
       iconType r1 = ''regular'' \<and> iconType r2 = ''solid'' \<and>
       name r1 = base \<and> name r2 = base \<and>
       displayName r1 = create_display_name base \<and> displayName r2 = displayName r1 \<and>
       category r2 = category r1 \<and> keywords r2 = keywords r1 \<and>
       cssClass r1 = ''lar'' @ '' la-'' @ base \<and> cssClass r2 = ''las'' @ '' la-'' @ base \<and>
       r2 = r1\<lparr>iconType := ''solid'', cssClass := ''las'' @ '' la-'' @ base\<rparr> \<and>
       (\<forall>before after. \<exists>d db da.
          build_comprehensive_icon_list (before @ icon_name # after) = Inr d \<and>
          build_comprehensive_icon_list before = Inr db \<and>
          build_comprehensive_icon_list after = Inr da \<and>
          icons d = icons db @ [r1, r2] @ icons da))"
proof -
  have e: "endswith icon_name ''-o''" using assms by (auto simp: endswith_iff)
  have ne: "icon_name \<noteq> []" using assms by simp
  have tk: "take (length icon_name - 2) icon_name = base" using assms by simp
  note ent = icon_entries_outline [OF e, unfolded tk]
  have "\<forall>before after. \<exists>d db da.
          build_comprehensive_icon_list (before @ icon_name # after) = Inr d \<and>
          build_comprehensive_icon_list before = Inr db \<and>
          build_comprehensive_icon_list after = Inr da \<and>
          icons d = icons db @ projr (icon_entries icon_name) @ icons da"
    using build_icons_of_split [OF ne] by blast
  then show ?thesis using e by (simp add: ent)
qed

theorem outline_identifier_two_records_witness:
  "''arrow-o'' = ''arrow'' @ ''-o'' \<and> endswith ''arrow-o'' ''-o'' \<and>
   (\<exists>r1 r2. icon_entries ''arrow-o'' = Inr [r1, r2] \<and>
      iconType r1 = ''regular'' \<and> iconType r2 = ''solid'' \<and>
      name r1 = ''arrow'' \<and> name r2 = ''arrow'' \<and>
      displayName r2 = displayName r1 \<and> category r2 = category r1 \<and>
      keywords r2 = keywords r1 \<and>
      cssClass r1 = ''lar la-arrow'' \<and> cssClass r2 = ''las la-arrow'')"
proof -
  have h: "''arrow-o'' = ''arrow'' @ ''-o''" by simp
  from outline_identifier_two_records [OF h] obtain r1 r2 where
    "endswith ''arrow-o'' ''-o''"
    "icon_entries ''arrow-o'' = Inr [r1, r2]"
    "iconType r1 = ''regular''" "iconType r2 = ''solid''"
    "name r1 = ''arrow''" "name r2 = ''arrow''"
    "displayName r2 = displayName r1" "category r2 = category r1" "keywords r2 = keywords r1"
    "cssClass r1 = ''lar'' @ '' la-'' @ ''arrow''" "cssClass r2 = ''las'' @ '' la-'' @ ''arrow''"
    by blast
  then show ?thesis by simp
qed

text \<open>
  C5. For every identifier (a non-empty string) that does not end in \<^verbatim>\<open>-o\<close>, one iteration
  of the loop appends exactly one record. Its name is the identifier unchanged, and its icon
  type is "brand" if the identifier contains an entry of the brand indicator list as a
  substring; otherwise "regular" if it contains \<^verbatim>\<open>-o\<close>, \<^verbatim>\<open>outline\<close> or \<^verbatim>\<open>regular\<close>; otherwise
  "solid". In the document built from any list that holds the identifier, that single record
  stands between the records of the identifiers before and of those after.
\<close>

theorem plain_identifier_one_record:
  assumes "icon_name \<noteq> []" and "\<not> endswith icon_name ''-o''"
  shows "\<exists>r. icon_entries icon_name = Inr [r] \<and>
       name r = icon_name \<and>
       iconType r =
         (if list_ex (\<lambda>brand. is_substring brand icon_name) brand_indicators then ''brand''
          else if is_substring ''-o'' icon_name \<or> is_substring ''outline'' icon_name \<or>
                  is_substring ''regular'' icon_name then ''regular''
          else ''solid'') \<and>
       (\<forall>before after. \<exists>d db da.
          build_comprehensive_icon_list (before @ icon_name # after) = Inr d \<and>
          build_comprehensive_icon_list before = Inr db \<and>
          build_comprehensive_icon_list after = Inr da \<and>
          icons d = icons db @ [r] @ icons da)"
proof -
  note ent = icon_entries_plain [OF assms(2)]
  have "\<forall>before after. \<exists>d db da.
          build_comprehensive_icon_list (before @ icon_name # after) = Inr d \<and>
          build_comprehensive_icon_list before = Inr db \<and>
          build_comprehensive_icon_list after = Inr da \<and>
          icons d = icons db @ projr (icon_entries icon_name) @ icons da"
    using build_icons_of_split [OF assms(1)] by blast
  moreover have "determine_icon_type icon_name =
         (if list_ex (\<lambda>brand. is_substring brand icon_name) brand_indicators then ''brand''
          else if is_substring ''-o'' icon_name \<or> is_substring ''outline'' icon_name \<or>
                  is_substring ''regular'' icon_name then ''regular''
          else ''solid'')"
    by (simp add: determine_icon_type_def regular_indicators_def)
  ultimately show ?thesis by (simp add: ent)
qed

theorem plain_identifier_one_record_witness:
  "''facebook-square'' \<noteq> [] \<and> \<not> endswith ''facebook-square'' ''-o'' \<and>
   (\<exists>r. icon_entries ''facebook-square'' = Inr [r] \<and> name r = ''facebook-square'' \<and>
      iconType r = ''brand'')"
proof -
  have h1: "''facebook-square'' \<noteq> []" by simp
  have h2: "\<not> endswith ''facebook-square'' ''-o''" by (simp add: endswith_def)
  have b: "list_ex (\<lambda>brand. is_substring brand ''facebook-square'') brand_indicators"
    by code_simp
  from plain_identifier_one_record [OF h1 h2] obtain r where
    r: "icon_entries ''facebook-square'' = Inr [r]" "name r = ''facebook-square''"
    "iconType r =
         (if list_ex (\<lambda>brand. is_substring brand ''facebook-square'') brand_indicators then ''brand''
          else if is_substring ''-o'' ''facebook-square'' \<or> is_substring ''outline'' ''facebook-square'' \<or>
                  is_substring ''regular'' ''facebook-square'' then ''regular''
          else ''solid'')"
    by blast
  from r(3) b have "iconType r = ''brand''" by simp
  with r(1,2) h1 h2 show ?thesis by blast
qed

text \<open>
  C10. For every identifier \<^verbatim>\<open>base\<close> followed by \<^verbatim>\<open>-o\<close>, the category and the keywords of
  both records are those \<^const>\<open>categorize_icon\<close> computes on the full identifier, suffix
  included, although the records are named \<^verbatim>\<open>base\<close>. So when the full identifier contains no
  brand entry and is an element of no table, both records are in "misc", even if \<^verbatim>\<open>base\<close> is
  an element of a table: classifying \<^verbatim>\<open>base\<close> gives the category \<^verbatim>\<open>c\<close> of the first table that
  has it, which is not "misc".
\<close>

theorem outline_identifier_classified_with_suffix:
  assumes "icon_name = base @ ''-o''"
  shows "\<exists>r1 r2. icon_entries icon_name = Inr [r1, r2] \<and>
      name r1 = base \<and> name r2 = base \<and>
      category r1 = fst (categorize_icon icon_name) \<and>
      category r2 = fst (categorize_icon icon_name) \<and>
      keywords r1 = snd (categorize_icon icon_name) \<and>
      keywords r2 = snd (categorize_icon icon_name) \<and>
      (\<not> any_brand_in icon_name \<and>
       find (\<lambda>(cat_name, table). icon_name \<in> set table) categories = None \<and>
       find (\<lambda>(cat_name, table). base \<in> set table) categories = Some (c, t) \<longrightarrow>
         category r1 = ''misc'' \<and> category r2 = ''misc'' \<and>
         fst (categorize_icon base) = c \<and> c \<noteq> ''misc'')"
proof -
  have e: "endswith icon_name ''-o''" using assms by (auto simp: endswith_iff)
  have tk: "take (length icon_name - 2) icon_name = base" using assms by simp
  note ent = icon_entries_outline [OF e, unfolded tk]
  have "fst (categorize_icon icon_name) = ''misc''"
    if "\<not> any_brand_in icon_name"
      and "find (\<lambda>(cat_name, table). icon_name \<in> set table) categories = None"
    using that by (simp add: categorize_icon_category_find)
  moreover have "fst (categorize_icon base) = c \<and> c \<noteq> ''misc''"
    if f: "find (\<lambda>(cat_name, table). base \<in> set table) categories = Some (c, t)"
  proof -
    have "fst (categorize_icon base) = c"
      using f by (simp add: categorize_icon_category_find)
    moreover have "c \<in> set (map fst categories)" using f by (rule find_key_in)
    then have "c \<noteq> ''misc''" using misc_no_key by blast
    ultimately show ?thesis by simp
  qed
  ultimately show ?thesis by (simp add: ent)
qed

theorem outline_identifier_classified_with_suffix_witness:
  "''bell-o'' = ''bell'' @ ''-o'' \<and> \<not> any_brand_in ''bell-o'' \<and>
   find (\<lambda>(cat_name, table). ''bell-o'' \<in> set table) categories = None \<and>
   find (\<lambda>(cat_name, table). ''bell'' \<in> set table) categories =
     Some (''communication'', communication_icons) \<and>
   (\<exists>r1 r2. icon_entries ''bell-o'' = Inr [r1, r2] \<and>
      category r1 = ''misc'' \<and> category r2 = ''misc'') \<and>
   fst (categorize_icon ''bell'') = ''communication''"
proof -
  have h: "''bell-o'' = ''bell'' @ ''-o''" by simp
  have b: "\<not> any_brand_in ''bell-o''" by code_simp
  have n: "find (\<lambda>(cat_name, table). ''bell-o'' \<in> set table) categories = None" by code_simp
  have s: "find (\<lambda>(cat_name, table). ''bell'' \<in> set table) categories =
     Some (''communication'', communication_icons)" by code_simp
  from outline_identifier_classified_with_suffix
    [OF h, of "''communication''" communication_icons] b n s
  have "(\<exists>r1 r2. icon_entries ''bell-o'' = Inr [r1, r2] \<and>
      category r1 = ''misc'' \<and> category r2 = ''misc'') \<and>
      fst (categorize_icon ''bell'') = ''communication''"
    by blast
  with h b n s show ?thesis by blast
qed

subsection \<open>The category of an identifier\<close>

text \<open>
  C3. The category \<^const>\<open>categorize_icon\<close> returns is that of the first table, in the order
  brand, accessibility, arrows, medical, communication, files, interface, text, emotions,
  transportation, food, science, that has the identifier as an element; when no table has it,
  the category is "brand" if the identifier contains an entry of the brand list as a
  substring and "misc" otherwise. In particular an identifier that contains a brand entry, is
  no element of the brand table and is an element of another table gets the category \<^verbatim>\<open>c\<close>
  of the first such table, not "brand".
\<close>

theorem categorize_icon_category:
  "fst (categorize_icon icon_name) =
     (case find (\<lambda>(cat_name, table). icon_name \<in> set table) categories of
        Some (cat_name, table) \<Rightarrow> cat_name
      | None \<Rightarrow> if any_brand_in icon_name then ''brand'' else ''misc'') \<and>
   map fst categories =
     [''brand'', ''accessibility'', ''arrows'', ''medical'', ''communication'', ''files'',
      ''interface'', ''text'', ''emotions'', ''transportation'', ''food'', ''science''] \<and>
   (any_brand_in icon_name \<longleftrightarrow>
      (\<exists>brand a b. brand \<in> set brand_icons \<and> icon_name = a @ brand @ b)) \<and>
   (any_brand_in icon_name \<and> icon_name \<notin> set brand_icons \<and>
    find (\<lambda>(cat_name, table). icon_name \<in> set table) categories = Some (c, t) \<longrightarrow>
      fst (categorize_icon icon_name) = c \<and> c \<noteq> ''brand'' \<and> icon_name \<in> set t)"
proof -
  have 1: "any_brand_in icon_name \<longleftrightarrow>
      (\<exists>brand a b. brand \<in> set brand_icons \<and> icon_name = a @ brand @ b)"
    by (auto simp: any_brand_in_def list_ex_iff is_substring_iff)
  have 2: "fst (categorize_icon icon_name) = c \<and> c \<noteq> ''brand'' \<and> icon_name \<in> set t"
    if nb: "icon_name \<notin> set brand_icons"
      and f: "find (\<lambda>(cat_name, table). icon_name \<in> set table) categories = Some (c, t)"
  proof -
    have "fst (categorize_icon icon_name) = c"
      using f by (simp add: categorize_icon_category_find)
    moreover from f nb have
      f': "find (\<lambda>(cat_name, table). icon_name \<in> set table) (tl categories) = Some (c, t)"
      by (simp add: categories_def)
    then have "c \<in> set (map fst (tl categories))" by (rule find_key_in)
    then have "c \<noteq> ''brand''" by (auto simp: categories_def)
    moreover from f have "icon_name \<in> set t" by (auto simp: find_Some_iff)
    ultimately show ?thesis by simp
  qed
  show ?thesis using 1 2 by (simp add: categorize_icon_category_find categories_keys)
qed

theorem categorize_icon_category_witness:
  "any_brand_in ''underline'' \<and> ''underline'' \<notin> set brand_icons \<and>
   find (\<lambda>(cat_name, table). ''underline'' \<in> set table) categories = Some (''text'', text_icons) \<and>
   fst (categorize_icon ''underline'') = ''text'' \<and> ''text'' \<noteq> ''brand''"
proof -
  have b: "any_brand_in ''underline''" by code_simp
  have n: "''underline'' \<notin> set brand_icons" by code_simp
  have f: "find (\<lambda>(cat_name, table). ''underline'' \<in> set table) categories =
     Some (''text'', text_icons)" by code_simp
  from categorize_icon_category [of "''underline''" "''text''" text_icons] b n f
  have "fst (categorize_icon ''underline'') = ''text'' \<and> ''text'' \<noteq> ''brand''" by blast
  with b n f show ?thesis by blast
qed

subsection \<open>The display name\<close>

lemma process_words_eq:
  "process_words words processed_words =
     processed_words @
     map (\<lambda>word. case map_of special_cases word of Some replacement \<Rightarrow> replacement
                  | None \<Rightarrow> capitalize word)
       (filter (\<lambda>word. map_of special_cases word \<noteq> Some []) words)"
  by (induction words arbitrary: processed_words) (auto split: option.splits)

lemma split_on_not_Nil: "split_on d s \<noteq> []"
  by (induction s) (auto split: list.splits)

lemma split_on_no_sep: "d \<notin> set w \<Longrightarrow> split_on d w = [w]"
  by (induction w) auto

lemma split_on_append: "d \<notin> set w \<Longrightarrow> split_on d (w @ d # rest) = w # split_on d rest"
  by (induction w) (auto split: list.splits)

lemma split_on_join:
  "ws \<noteq> [] \<Longrightarrow> list_all (\<lambda>w. d \<notin> set w) ws \<Longrightarrow> split_on d (join [d] ws) = ws"
proof (induction "[d]" ws rule: join.induct)
  case 1
  then show ?case by simp
next
  case (2 w)
  then show ?case by (simp add: split_on_no_sep)
next
  case (3 w v ws)
  then show ?case by (simp add: split_on_append)
qed

lemma empty_replacement_iff: "map_of special_cases word = Some [] \<longleftrightarrow> word = ''o''"
proof
  assume "map_of special_cases word = Some []"
  then have "(word, []) \<in> set special_cases" by (rule map_of_SomeD)
  then show "word = ''o''" by (simp add: special_cases_def)
next
  assume "word = ''o''"
  then show "map_of special_cases word = Some []" by (simp add: special_cases_def)
qed

lemma create_display_name_eq:
  "create_display_name icon_name =
     join '' ''
       (map (\<lambda>word. case map_of special_cases word of Some replacement \<Rightarrow> replacement
                    | None \<Rightarrow> capitalize word)
          (filter (\<lambda>word. map_of special_cases word \<noteq> Some []) (split_on CHR ''-'' icon_name)))"
  by (simp add: create_display_name_def process_words_eq)

lemma special_cases_values:
  "list_all (\<lambda>(k, v). v = [] \<or> (map_of special_cases v = None \<and>
      create_display_name v = capitalize v \<and> (create_display_name v = v) = (k = ''alt'')))
     special_cases"
  by code_simp

text \<open>
  C4 (as amended). For every key of the substitution table whose value is not empty, the
  value is itself no key of the table, so \<^const>\<open>create_display_name\<close> applied to the value
  substitutes nothing (no double substitution) and returns the value capitalised the way
  \<^verbatim>\<open>str.capitalize\<close> does it: first character upper-cased, all others lower-cased. The value
  comes back unchanged only for the key \<^verbatim>\<open>alt\<close>, whose value \<^verbatim>\<open>Alternative\<close> has that shape.
\<close>

theorem display_name_of_expanded_value:
  assumes "map_of special_cases k = Some v" and "v \<noteq> []"
  shows "map_of special_cases v = None \<and> create_display_name v = capitalize v \<and>
         (create_display_name v = v \<longleftrightarrow> k = ''alt'')"
proof -
  from assms(1) have "(k, v) \<in> set special_cases" by (rule map_of_SomeD)
  with special_cases_values have
    "v = [] \<or> (map_of special_cases v = None \<and> create_display_name v = capitalize v \<and>
       (create_display_name v = v) = (k = ''alt''))"
    by (auto simp: list_all_iff)
  with assms(2) show ?thesis by blast
qed

theorem display_name_of_expanded_value_witness:
  "map_of special_cases ''js'' = Some ''JavaScript'' \<and> ''JavaScript'' \<noteq> [] \<and>
   map_of special_cases ''JavaScript'' = None \<and>
   create_display_name ''JavaScript'' = capitalize ''JavaScript'' \<and>
   capitalize ''JavaScript'' = ''Javascript'' \<and>
   create_display_name ''JavaScript'' \<noteq> ''JavaScript''"
proof -
  have h1: "map_of special_cases ''js'' = Some ''JavaScript''" by code_simp
  have h2: "''JavaScript'' \<noteq> []" by simp
  have c: "capitalize ''JavaScript'' = ''Javascript''" by code_simp
  from display_name_of_expanded_value [OF h1 h2] h1 h2 c show ?thesis by simp
qed

text \<open>
  C4 as the specification words it, the value coming back unchanged for every key, fails:
  the key \<^verbatim>\<open>usa\<close> has the value \<^verbatim>\<open>USA\<close>, and the display name of \<^verbatim>\<open>USA\<close> is \<^verbatim>\<open>Usa\<close>.
\<close>

theorem display_name_not_idempotent_counterexample:
  "map_of special_cases ''usa'' = Some ''USA'' \<and> ''USA'' \<noteq> [] \<and>
   create_display_name ''USA'' = ''Usa'' \<and> create_display_name ''USA'' \<noteq> ''USA''"
  by code_simp

text \<open>
  C9. \<^const>\<open>create_display_name\<close> splits the name at the hyphens, leaves out every segment
  whose table value is the empty string, wherever it stands, renders each remaining segment
  (table value, or the segment capitalised) and joins the results with single spaces. The
  only segment with an empty table value is \<^verbatim>\<open>o\<close>. Hence putting a segment \<^verbatim>\<open>o\<close> at any place
  between hyphen-free segments does not change the display name: it adds no word and no
  space. The name \<^verbatim>\<open>arrow-circle-o-down\<close> is displayed as \<^verbatim>\<open>Arrow Circle Down\<close>.
\<close>

theorem display_name_drops_empty_substitution:
  "create_display_name icon_name =
     join '' ''
       (map (\<lambda>word. case map_of special_cases word of Some replacement \<Rightarrow> replacement
                    | None \<Rightarrow> capitalize word)
          (filter (\<lambda>word. map_of special_cases word \<noteq> Some []) (split_on CHR ''-'' icon_name))) \<and>
   (map_of special_cases word = Some [] \<longleftrightarrow> word = ''o'') \<and>
   (list_all (\<lambda>w. CHR ''-'' \<notin> set w) (before @ after) \<longrightarrow>
      create_display_name (join ''-'' (before @ [''o''] @ after)) =
      create_display_name (join ''-'' (before @ after))) \<and>
   create_display_name ''arrow-circle-o-down'' = ''Arrow Circle Down''"
proof -
  have ins: "create_display_name (join ''-'' (before @ [''o''] @ after)) =
      create_display_name (join ''-'' (before @ after))"
    if nh: "list_all (\<lambda>w. CHR ''-'' \<notin> set w) (before @ after)"
  proof (cases "before @ after = []")
    case True
    then have "before = []" "after = []" by simp_all
    then show ?thesis
      by (simp add: create_display_name_eq empty_replacement_iff)
        (simp add: special_cases_def)
  next
    case False
    from nh have nh': "list_all (\<lambda>w. CHR ''-'' \<notin> set w) (before @ [''o''] @ after)" by simp
    have s1: "split_on CHR ''-'' (join ''-'' (before @ [''o''] @ after)) = before @ [''o''] @ after"
      using split_on_join [of "before @ [''o''] @ after" "CHR ''-''"] nh' by simp
    have s2: "split_on CHR ''-'' (join ''-'' (before @ after)) = before @ after"
      using split_on_join [of "before @ after" "CHR ''-''"] nh False by simp
    show ?thesis
      unfolding create_display_name_eq s1 s2 by (simp add: empty_replacement_iff)
  qed
  have ex: "create_display_name ''arrow-circle-o-down'' = ''Arrow Circle Down''" by code_simp
  note eq = create_display_name_eq [of icon_name]
  note em = empty_replacement_iff [of word]
  from eq em ins ex show ?thesis by blast
qed

theorem display_name_drops_empty_substitution_witness:
  "list_all (\<lambda>w. CHR ''-'' \<notin> set w) ([''arrow'', ''circle''] @ [''down'']) \<and>
   join ''-'' ([''arrow'', ''circle''] @ [''o''] @ [''down'']) = ''arrow-circle-o-down'' \<and>
   join ''-'' ([''arrow'', ''circle''] @ [''down'']) = ''arrow-circle-down'' \<and>
   create_display_name ''arrow-circle-o-down'' = create_display_name ''arrow-circle-down'' \<and>
   create_display_name ''arrow-circle-o-down'' = ''Arrow Circle Down''"
proof -
  have h: "list_all (\<lambda>w. CHR ''-'' \<notin> set w) ([''arrow'', ''circle''] @ [''down''])" by simp
  have j1: "join ''-'' ([''arrow'', ''circle''] @ [''o''] @ [''down'']) = ''arrow-circle-o-down''"
    by simp
  have j2: "join ''-'' ([''arrow'', ''circle''] @ [''down'']) = ''arrow-circle-down''" by simp
  note t = display_name_drops_empty_substitution
    [of "''arrow-circle-o-down''" "''o''" "[''arrow'', ''circle'']" "[''down'']"]
  from t h have a:
    "create_display_name (join ''-'' ([''arrow'', ''circle''] @ [''o''] @ [''down''])) =
     create_display_name (join ''-'' ([''arrow'', ''circle''] @ [''down'']))"
    by blast
  from t have b: "create_display_name ''arrow-circle-o-down'' = ''Arrow Circle Down''"
    by blast
  from a have a':
    "create_display_name ''arrow-circle-o-down'' = create_display_name ''arrow-circle-down''"
    unfolding j1 j2 .
  from h j1 j2 a' b show ?thesis by blast
qed

subsection \<open>The keywords of an identifier\<close>

lemma isspace_space: "isspace CHR '' ''"
  by (simp add: isspace_def)

lemma isspace_beyond_ascii: "isspace (char_of (133::nat)) \<and> isspace (char_of (160::nat))"
  by (simp add: isspace_def)

lemma keywords_split_at_no_break_space:
  "snd (categorize_icon (''ab'' @ [char_of (160::nat)] @ ''cd'')) = [''ab'', ''cd'']"
  by code_simp

lemma split_ws_from_segments:
  "split_ws_from cur (replace_char CHR ''-'' CHR '' '' s) =
     (case split_on CHR ''-'' s of
        [] \<Rightarrow> split_ws_from cur []
      | w # ws \<Rightarrow> split_ws_from cur w @ concat (map split_ws ws))"
proof (induction s arbitrary: cur)
  case Nil
  then show ?case by (simp add: replace_char_def)
next
  case (Cons c cs)
  obtain w ws where sp: "split_on CHR ''-'' cs = w # ws"
    using split_on_not_Nil [of "CHR ''-''" cs] by (cases "split_on CHR ''-'' cs") auto
  have ih: "split_ws_from cur' (replace_char CHR ''-'' CHR '' '' cs) =
      split_ws_from cur' w @ concat (map split_ws ws)" for cur'
    using Cons.IH [of cur'] by (simp add: sp)
  show ?case
  proof (cases "c = CHR ''-''")
    case True
    then show ?thesis
      using ih [of "[]"] by (simp add: replace_char_def sp isspace_space split_ws_def)
  next
    case False
    then show ?thesis
      using ih [of "[]"] ih [of "c # cur"] by (simp add: replace_char_def sp)
  qed
qed

lemma split_ws_from_plain:
  "list_all (\<lambda>c. \<not> isspace c) w \<Longrightarrow> cur \<noteq> [] \<or> w \<noteq> [] \<Longrightarrow>
     split_ws_from cur w = [rev cur @ w]"
  by (induction w arbitrary: cur) auto

lemma icon_words_segments:
  "split_ws (replace_char CHR ''-'' CHR '' '' s) = concat (map split_ws (split_on CHR ''-'' s))"
proof -
  obtain w ws where sp: "split_on CHR ''-'' s = w # ws"
    using split_on_not_Nil [of "CHR ''-''" s] by (cases "split_on CHR ''-'' s") auto
  show ?thesis
    using split_ws_from_segments [of "[]" s] by (simp add: sp split_ws_def)
qed

lemma segment_is_icon_word:
  assumes "w \<in> set (split_on CHR ''-'' s)" and "list_all (\<lambda>c. \<not> isspace c) w" and "w \<noteq> []"
  shows "w \<in> set (split_ws (replace_char CHR ''-'' CHR '' '' s))"
proof -
  have "split_ws w = [w]"
    using split_ws_from_plain [of w "[]"] assms(2,3) by (simp add: split_ws_def)
  with assms(1) show ?thesis by (force simp: icon_words_segments)
qed

lemma snd_categorize_icon:
  "snd (categorize_icon icon_name) =
     filter (\<lambda>k. k \<noteq> [] \<and> length k > 1)
       (remdups
         ((if any_brand_in icon_name then [''brand'', ''social'', ''platform'', ''service'']
           else []) @
          split_ws (replace_char CHR ''-'' CHR '' '' icon_name) @
          (case map_of category_keywords (fst (categorize_icon icon_name)) of
             Some ks \<Rightarrow> ks | None \<Rightarrow> [])))"
  by (simp add: categorize_icon_def Let_def split: option.splits)

lemma category_keywords_all:
  "list_all (\<lambda>(c, ks). list_all (\<lambda>k. length k > 1 \<and>
       k \<notin> set [''brand'', ''social'', ''platform'', ''service'']) ks) category_keywords"
  by code_simp

lemma category_keywords_entry:
  assumes "map_of category_keywords c = Some ks" and "k \<in> set ks"
  shows "length k > 1 \<and> k \<notin> set [''brand'', ''social'', ''platform'', ''service'']"
proof -
  from assms(1) have "(c, ks) \<in> set category_keywords" by (rule map_of_SomeD)
  with category_keywords_all have
    "list_all (\<lambda>k. length k > 1 \<and> k \<notin> set [''brand'', ''social'', ''platform'', ''service'']) ks"
    by (auto simp: list_all_iff)
  with assms(2) show ?thesis by (auto simp: list_all_iff)
qed

text \<open>
  C6 (as amended). For every identifier the keyword list \<^const>\<open>categorize_icon\<close> returns
  holds no empty string and no string of length 1, and no string twice. It holds every
  hyphen-split segment of the identifier that is longer than one character and has no
  whitespace in it (for an identifier without whitespace: every segment longer than one
  character). It holds all four seed terms "brand", "social", "platform" and "service" whenever
  the identifier contains an entry of the brand list as a substring; a seed term is a
  keyword exactly when the identifier contains such an entry or the term is one of the
  identifier's own words. It holds every term of the list registered for the category
  returned, when there is one.
\<close>

theorem categorize_icon_keywords:
  "[] \<notin> set (snd (categorize_icon icon_name)) \<and>
   list_all (\<lambda>k. length k > 1) (snd (categorize_icon icon_name)) \<and>
   distinct (snd (categorize_icon icon_name)) \<and>
   (w \<in> set (split_on CHR ''-'' icon_name) \<and> list_all (\<lambda>c. \<not> isspace c) w \<and> length w > 1
      \<longrightarrow> w \<in> set (snd (categorize_icon icon_name))) \<and>
   (any_brand_in icon_name \<longrightarrow>
      set [''brand'', ''social'', ''platform'', ''service'']
        \<subseteq> set (snd (categorize_icon icon_name))) \<and>
   (seed \<in> set [''brand'', ''social'', ''platform'', ''service''] \<longrightarrow>
      (seed \<in> set (snd (categorize_icon icon_name)) \<longleftrightarrow>
         any_brand_in icon_name \<or>
         seed \<in> set (split_ws (replace_char CHR ''-'' CHR '' '' icon_name)))) \<and>
   (map_of category_keywords (fst (categorize_icon icon_name)) = Some ks \<longrightarrow>
      set ks \<subseteq> set (snd (categorize_icon icon_name)))"
proof -
  let ?K = "snd (categorize_icon icon_name)"
  let ?seeds = "[''brand'', ''social'', ''platform'', ''service'']"
  let ?words = "split_ws (replace_char CHR ''-'' CHR '' '' icon_name)"
  let ?boiler = "case map_of category_keywords (fst (categorize_icon icon_name)) of
             Some ks \<Rightarrow> ks | None \<Rightarrow> []"
  have mem: "k \<in> set ?K \<longleftrightarrow>
      length k > 1 \<and> ((any_brand_in icon_name \<and> k \<in> set ?seeds) \<or> k \<in> set ?words \<or>
        k \<in> set ?boiler)" for k
    by (auto simp: snd_categorize_icon)
  have 1: "[] \<notin> set ?K" by (simp add: mem)
  have 2: "list_all (\<lambda>k. length k > 1) ?K" by (simp add: list_all_iff mem)
  have 3: "distinct ?K" by (simp add: snd_categorize_icon)
  have 4: "w \<in> set ?K"
    if "w \<in> set (split_on CHR ''-'' icon_name)" "list_all (\<lambda>c. \<not> isspace c) w" "length w > 1"
  proof -
    from that(3) have "w \<noteq> []" by auto
    with that(1,2) have "w \<in> set ?words" by (rule segment_is_icon_word)
    with that(3) show ?thesis by (simp add: mem)
  qed
  have 5: "set ?seeds \<subseteq> set ?K" if "any_brand_in icon_name"
    using that by (auto simp: mem)
  have 6: "seed \<in> set ?K \<longleftrightarrow> any_brand_in icon_name \<or> seed \<in> set ?words"
    if s: "seed \<in> set ?seeds"
  proof -
    have "seed \<notin> set ?boiler"
    proof (cases "map_of category_keywords (fst (categorize_icon icon_name))")
      case None
      then show ?thesis by simp
    next
      case (Some ks)
      from category_keywords_entry [OF Some] s have "seed \<notin> set ks" by blast
      with Some show ?thesis by simp
    qed
    moreover from s have "length seed > 1" by auto
    ultimately show ?thesis using s by (simp only: mem) blast
  qed
  have 7: "set ks \<subseteq> set ?K"
    if m: "map_of category_keywords (fst (categorize_icon icon_name)) = Some ks"
  proof
    fix k assume k: "k \<in> set ks"
    with m have "length k > 1" using category_keywords_entry by blast
    with k m show "k \<in> set ?K" by (simp add: mem)
  qed
  from 1 2 3 4 5 6 7 show ?thesis by blast
qed

theorem categorize_icon_keywords_witness:
  "''grip'' \<in> set (split_on CHR ''-'' ''grip-lines'') \<and>
   list_all (\<lambda>c. \<not> isspace c) ''grip'' \<and> length ''grip'' > 1 \<and>
   any_brand_in ''grip-lines'' \<and>
   ''brand'' \<in> set [''brand'', ''social'', ''platform'', ''service''] \<and>
   map_of category_keywords (fst (categorize_icon ''grip-lines'')) =
     Some [''interface'', ''ui'', ''control'', ''button''] \<and>
   ''grip'' \<in> set (snd (categorize_icon ''grip-lines'')) \<and>
   set [''brand'', ''social'', ''platform'', ''service'']
     \<subseteq> set (snd (categorize_icon ''grip-lines'')) \<and>
   set [''interface'', ''ui'', ''control'', ''button'']
     \<subseteq> set (snd (categorize_icon ''grip-lines'')) \<and>
   distinct (snd (categorize_icon ''grip-lines''))"
proof -
  have h1: "''grip'' \<in> set (split_on CHR ''-'' ''grip-lines'')" by code_simp
  have h2: "list_all (\<lambda>c. \<not> isspace c) ''grip''" by code_simp
  have h3: "length ''grip'' > 1" by simp
  have h4: "any_brand_in ''grip-lines''" by code_simp
  have h5: "''brand'' \<in> set [''brand'', ''social'', ''platform'', ''service'']" by simp
  have h6: "map_of category_keywords (fst (categorize_icon ''grip-lines'')) =
     Some [''interface'', ''ui'', ''control'', ''button'']" by code_simp
  note t = categorize_icon_keywords
    [of "''grip-lines''" "''grip''" "''brand''" "[''interface'', ''ui'', ''control'', ''button'']"]
  from t h1 h2 h3 have a: "''grip'' \<in> set (snd (categorize_icon ''grip-lines''))" by blast
  from t h4 have b: "set [''brand'', ''social'', ''platform'', ''service'']
     \<subseteq> set (snd (categorize_icon ''grip-lines''))" by blast
  from t h6 have c: "set [''interface'', ''ui'', ''control'', ''button'']
     \<subseteq> set (snd (categorize_icon ''grip-lines''))" by blast
  from t have d: "distinct (snd (categorize_icon ''grip-lines''))" by blast
  from h1 h2 h3 h4 h5 h6 a b c d show ?thesis by blast
qed

text \<open>
  C6 as the specification words it, the four seed terms being keywords exactly when the
  identifier contains a brand entry, fails: \<^verbatim>\<open>brand-social-platform-service\<close> contains no
  entry of the brand list, and its own four words make all four seed terms keywords.
\<close>

theorem categorize_icon_seed_keywords_counterexample:
  "\<not> any_brand_in ''brand-social-platform-service'' \<and>
   ''brand'' \<in> set (snd (categorize_icon ''brand-social-platform-service'')) \<and>
   ''social'' \<in> set (snd (categorize_icon ''brand-social-platform-service'')) \<and>
   ''platform'' \<in> set (snd (categorize_icon ''brand-social-platform-service'')) \<and>
   ''service'' \<in> set (snd (categorize_icon ''brand-social-platform-service''))"
proof -
  have b: "\<not> any_brand_in ''brand-social-platform-service''" by code_simp
  have k: "snd (categorize_icon ''brand-social-platform-service'') =
     [''brand'', ''social'', ''platform'', ''service'']" by code_simp
  show ?thesis unfolding k using b by simp
qed

end
